theory Spec2Isabelle
  imports Main "HOL-Library.Sublist"
begin

section \<open>Strings and the string helpers of \<^verbatim>\<open>src/app/page.tsx\<close>\<close>

text \<open>
  A string is a \<^typ>\<open>string\<close>: the list of the bytes of its UTF-8 text. The built-in
  string operations the program calls are written out below for ASCII text, where a
  byte is a character: a byte from \<open>0x80\<close> on is no letter, no digit and no white
  space, and the case conversions leave it as it is. A value that may be
  \<^verbatim>\<open>undefined\<close> is a \<^typ>\<open>'a option\<close>.
\<close>

definition isUpper :: "char \<Rightarrow> bool" where
  "isUpper c = (65 \<le> (of_char c :: nat) \<and> (of_char c :: nat) \<le> 90)"

definition isLower :: "char \<Rightarrow> bool" where
  "isLower c = (97 \<le> (of_char c :: nat) \<and> (of_char c :: nat) \<le> 122)"

definition isDigit :: "char \<Rightarrow> bool" where
  "isDigit c = (48 \<le> (of_char c :: nat) \<and> (of_char c :: nat) \<le> 57)"

text \<open>The class \<^verbatim>\<open>\s\<close> on ASCII: tab, line feed, vertical tab, form feed, carriage
  return and space. \<^verbatim>\<open>trim()\<close> strips the same characters.\<close>

definition isSpace :: "char \<Rightarrow> bool" where
  "isSpace c = ((9 \<le> (of_char c :: nat) \<and> (of_char c :: nat) \<le> 13) \<or> (of_char c :: nat) = 32)"

definition lowerChar :: "char \<Rightarrow> char" where
  "lowerChar c = (if isUpper c then char_of ((of_char c :: nat) + 32) else c)"


definition toLowerCase :: "string \<Rightarrow> string" where
  "toLowerCase s = map lowerChar s"


text \<open>\<^verbatim>\<open>.replace(/[^a-z0-9\s]/g, " ")\<close>: every character outside the class becomes one
  space.\<close>

definition replaceNonAlnum :: "string \<Rightarrow> string" where
  "replaceNonAlnum s =
     map (\<lambda>c. if isLower c \<or> isDigit c \<or> isSpace c then c else CHR '' '') s"

text \<open>\<^verbatim>\<open>.replace(/\s+/g, " ")\<close>: every maximal run of white space becomes one space.\<close>

function collapseSpaces :: "string \<Rightarrow> string" where
  "collapseSpaces [] = []"
| "collapseSpaces (c # cs) =
     (if isSpace c then CHR '' '' # collapseSpaces (dropWhile isSpace cs)
      else c # collapseSpaces cs)"
  by pat_completeness auto
termination
  by (relation "measure length") (auto simp: length_dropWhile_le le_imp_less_Suc)

definition trimStart :: "string \<Rightarrow> string" where
  "trimStart s = dropWhile isSpace s"

definition trimEnd :: "string \<Rightarrow> string" where
  "trimEnd s = rev (dropWhile isSpace (rev s))"

definition trim :: "string \<Rightarrow> string" where
  "trim s = trimEnd (trimStart s)"

text \<open>\<^verbatim>\<open>x || ""\<close> for a string or \<^verbatim>\<open>undefined\<close>: the empty string is falsy as well, and
  gives the empty string again.\<close>

definition orEmpty :: "string option \<Rightarrow> string" where
  "orEmpty x = (case x of None \<Rightarrow> [] | Some s \<Rightarrow> s)"

text \<open>The function \<^verbatim>\<open>normalize\<close>, here \<open>normalizeStr\<close> since HOL has a constant of that
  name. Its argument is a string, or \<^verbatim>\<open>undefined\<close> when the caller has none.\<close>

definition normalizeStr :: "string option \<Rightarrow> string" where
  "normalizeStr s = trim (collapseSpaces (replaceNonAlnum (toLowerCase (orEmpty s))))"


text \<open>A parameter with the default \<^verbatim>\<open>= []\<close> takes the default when the caller passes
  \<^verbatim>\<open>undefined\<close>.\<close>

definition orNil :: "'a list option \<Rightarrow> 'a list" where
  "orNil x = (case x of None \<Rightarrow> [] | Some xs \<Rightarrow> xs)"


definition equalsAny :: "string \<Rightarrow> string list option \<Rightarrow> bool" where
  "equalsAny text accepted =
     (let t = normalizeStr (Some text)
      in t \<in> set (map (\<lambda>c. normalizeStr (Some c)) (orNil accepted)))"

section \<open>Question types\<close>

text \<open>The option code \<^verbatim>\<open>"a" | "b" | "c"\<close> and the string it is at run time.\<close>

datatype OptionId = OptA | OptB | OptC

fun optionCode :: "OptionId \<Rightarrow> string" where
  "optionCode OptA = ''a''"
| "optionCode OptB = ''b''"
| "optionCode OptC = ''c''"

record MCQOption =
  optId :: OptionId
  label :: string

record ItemBase =
  itemId :: string
  prompt :: string
  guidance :: "string option"

text \<open>The union \<^verbatim>\<open>Item\<close>, tagged by \<^verbatim>\<open>type\<close>: \<^verbatim>\<open>"mcq"\<close>, \<^verbatim>\<open>"text"\<close>, \<^verbatim>\<open>"short"\<close>,
  \<^verbatim>\<open>"writing"\<close>. The field \<^verbatim>\<open>keywords\<close> of a short item is optional; it is
  \<open>itemKeywords\<close> here.\<close>

datatype Item =
    MCQItem (base: ItemBase) (options: "MCQOption list") (answer: OptionId)
  | TextAutoItem (base: ItemBase) (acceptedAnswers: "string list")
  | ShortItem (base: ItemBase) (itemKeywords: "string list option")
  | WritingItem (base: ItemBase)

datatype ItemType = Mcq | TextT | Short | Writing

fun itemType :: "Item \<Rightarrow> ItemType" where
  "itemType (MCQItem _ _ _) = Mcq"
| "itemType (TextAutoItem _ _) = TextT"
| "itemType (ShortItem _ _) = Short"
| "itemType (WritingItem _) = Writing"

record Section =
  sectionId :: string
  name :: string
  items :: "Item list"

record Test =
  title :: string
  readingTitle :: string
  readingText :: string
  sections :: "Section list"

section \<open>Derived values of the component \<^verbatim>\<open>App\<close>\<close>

text \<open>The state \<^verbatim>\<open>answers\<close> is a \<^verbatim>\<open>Record<string, string>\<close>: a map from item ids to
  strings, where a key that was never set reads as \<^verbatim>\<open>undefined\<close>. (Item ids are taken
  not to be names of properties every object inherits.)\<close>

type_synonym Answers = "string \<rightharpoonup> string"

text \<open>An element of \<^verbatim>\<open>allItems\<close>: the item with the \<^verbatim>\<open>sectionName\<close> added to it.\<close>

type_synonym FlatItem = "Item \<times> string"

definition allItems :: "Test \<Rightarrow> FlatItem list" where
  "allItems TEST = concat (map (\<lambda>s. map (\<lambda>it. (it, name s)) (items s)) (sections TEST))"

definition autoScoredItems :: "Test \<Rightarrow> FlatItem list" where
  "autoScoredItems TEST =
     filter (\<lambda>it. itemType (fst it) = Mcq \<or> itemType (fst it) = TextT) (allItems TEST)"

definition totalAutoPoints :: "Test \<Rightarrow> nat" where
  "totalAutoPoints TEST = length (autoScoredItems TEST)"

definition totalPoints :: "Test \<Rightarrow> nat" where
  "totalPoints TEST = totalAutoPoints TEST + 1"

text \<open>\<^verbatim>\<open>!!a\<close> for a string or \<^verbatim>\<open>undefined\<close>.\<close>

definition truthy :: "string option \<Rightarrow> bool" where
  "truthy a = (case a of None \<Rightarrow> False | Some v \<Rightarrow> v \<noteq> [])"

text \<open>\<^verbatim>\<open>typeof a === "string" && a.trim().length > 0\<close>.\<close>

definition nonBlank :: "string option \<Rightarrow> bool" where
  "nonBlank a = (case a of None \<Rightarrow> False | Some v \<Rightarrow> length (trim v) > 0)"


definition isComplete :: "Test \<Rightarrow> Answers \<Rightarrow> bool" where
  "isComplete TEST answers =
     list_all (\<lambda>it. let a = answers (itemId (base (fst it)))
                      in if itemType (fst it) = Mcq then truthy a else nonBlank a)
              (allItems TEST)"

text \<open>The body of the loop of \<^verbatim>\<open>autoScore\<close>, from the counter before to the counter
  after one item.\<close>

definition autoScoreStep :: "Answers \<Rightarrow> FlatItem \<Rightarrow> nat \<Rightarrow> nat" where
  "autoScoreStep answers it correct =
     (let given = orEmpty (answers (itemId (base (fst it))))
      in if itemType (fst it) = Mcq then
           (if given = optionCode (answer (fst it)) then correct + 1 else correct)
         else if itemType (fst it) = TextT then
           (if equalsAny given (Some (acceptedAnswers (fst it))) then correct + 1 else correct)
         else correct)"

definition autoScore :: "Test \<Rightarrow> Answers \<Rightarrow> nat" where
  "autoScore TEST answers = fold (autoScoreStep answers) (autoScoredItems TEST) 0"

text \<open>\<^verbatim>\<open>selfScoreWriting\<close> is \<^verbatim>\<open>null\<close> or the number a self-check button stored.\<close>

definition finalScore :: "Test \<Rightarrow> Answers \<Rightarrow> nat option \<Rightarrow> nat" where
  "finalScore TEST answers selfScoreWriting =
     autoScore TEST answers + (case selfScoreWriting of None \<Rightarrow> 0 | Some n \<Rightarrow> n)"



section \<open>The export text\<close>






section \<open>The session: state and user actions\<close>

datatype Tab = ReadTab | TestTab | ResultsTab

text \<open>The keys of \<^verbatim>\<open>TESTS\<close>, which are the values the test selector offers.\<close>

datatype TestKey = Day1 | Original | Day2

record Session =
  selectedTestKey :: TestKey
  tab :: Tab
  answers :: Answers
  selfScoreWriting :: "nat option"
  finished :: bool

definition initialSession :: Session where
  "initialSession =
     \<lparr> selectedTestKey = Day1, tab = ReadTab, answers = Map.empty,
       selfScoreWriting = None, finished = False \<rparr>"

definition setAnswer :: "string \<Rightarrow> string \<Rightarrow> Session \<Rightarrow> Session" where
  "setAnswer i v st = st\<lparr>answers := (answers st)(i \<mapsto> v)\<rparr>"

definition resetAllToReading :: "Session \<Rightarrow> Session" where
  "resetAllToReading st =
     st\<lparr>answers := Map.empty, selfScoreWriting := None, finished := False, tab := ReadTab\<rparr>"

definition onChangeTest :: "TestKey \<Rightarrow> Session \<Rightarrow> Session" where
  "onChangeTest key st =
     st\<lparr>selectedTestKey := key, answers := Map.empty, selfScoreWriting := None,
        finished := False, tab := ReadTab\<rparr>"

text \<open>The handler of the finish button.\<close>

definition finishTest :: "Session \<Rightarrow> Session" where
  "finishTest st = st\<lparr>finished := True, tab := ResultsTab\<rparr>"

text \<open>What the user can do: one constructor for each control of the page that has a
  handler.\<close>

datatype Action =
    SelectTest TestKey
  | ClickReading
  | ClickTest
  | ClickResults
  | ClickReset
  | ClickStartTheTest
  | PickOption string OptionId
  | TypeAnswer string string
  | ClickSelfScore nat
  | ClickFinish
  | ClickBackToTest
  | ClickStartOver

text \<open>The input controls of the test view: a radio button for each option of each mcq
  item, a text area for each other item, and the two self-check buttons under each
  writing item.\<close>

definition hasRadio :: "Test \<Rightarrow> string \<Rightarrow> OptionId \<Rightarrow> bool" where
  "hasRadio TEST i opt =
     list_ex (\<lambda>it. itemType (fst it) = Mcq \<and> itemId (base (fst it)) = i \<and>
                    list_ex (\<lambda>ob. optId ob = opt) (options (fst it)))
             (allItems TEST)"

definition hasTextarea :: "Test \<Rightarrow> string \<Rightarrow> bool" where
  "hasTextarea TEST i =
     list_ex (\<lambda>it. itemType (fst it) \<noteq> Mcq \<and> itemId (base (fst it)) = i) (allItems TEST)"

definition hasSelfCheck :: "Test \<Rightarrow> bool" where
  "hasSelfCheck TEST = list_ex (\<lambda>it. itemType (fst it) = Writing) (allItems TEST)"

text \<open>One user action. The result is \<open>None\<close> when the control is not on the page in
  this view or is disabled, so that its handler cannot run; the catalog \<^verbatim>\<open>TESTS\<close> is
  the parameter \<open>tests\<close>. The test selector and the Reading button have
  \<^verbatim>\<open>disabled={tab === "test" && !finished}\<close>, the Results button has
  \<^verbatim>\<open>disabled={!finished}\<close>, the finish button has \<^verbatim>\<open>disabled={!isComplete}\<close>; the Test
  button and the Reset button are never disabled. The start button is on the page in the
  reading view, the inputs and the finish button in the test view, the back and start
  over buttons in the results view.\<close>

fun step :: "(TestKey \<Rightarrow> Test) \<Rightarrow> Session \<Rightarrow> Action \<Rightarrow> Session option" where
  "step tests st (SelectTest key) =
     (if tab st = TestTab \<and> \<not> finished st then None else Some (onChangeTest key st))"
| "step tests st ClickReading =
     (if tab st = TestTab \<and> \<not> finished st then None else Some (st\<lparr>tab := ReadTab\<rparr>))"
| "step tests st ClickTest = Some (st\<lparr>tab := TestTab\<rparr>)"
| "step tests st ClickResults =
     (if \<not> finished st then None else Some (st\<lparr>tab := ResultsTab\<rparr>))"
| "step tests st ClickReset = Some (resetAllToReading st)"
| "step tests st ClickStartTheTest =
     (if tab st = ReadTab then Some (st\<lparr>tab := TestTab\<rparr>) else None)"
| "step tests st (PickOption i opt) =
     (if tab st = TestTab \<and> hasRadio (tests (selectedTestKey st)) i opt
      then Some (setAnswer i (optionCode opt) st) else None)"
| "step tests st (TypeAnswer i v) =
     (if tab st = TestTab \<and> hasTextarea (tests (selectedTestKey st)) i
      then Some (setAnswer i v st) else None)"
| "step tests st (ClickSelfScore n) =
     (if tab st = TestTab \<and> hasSelfCheck (tests (selectedTestKey st)) \<and> (n = 1 \<or> n = 0)
      then Some (st\<lparr>selfScoreWriting := Some n\<rparr>) else None)"
| "step tests st ClickFinish =
     (if tab st = TestTab \<and> isComplete (tests (selectedTestKey st)) (answers st)
      then Some (finishTest st) else None)"
| "step tests st ClickBackToTest =
     (if tab st = ResultsTab then Some (st\<lparr>tab := TestTab\<rparr>) else None)"
| "step tests st ClickStartOver =
     (if tab st = ResultsTab then Some (resetAllToReading st) else None)"

text \<open>The sessions the user can bring about from the initial one.\<close>

inductive reachable :: "(TestKey \<Rightarrow> Test) \<Rightarrow> Session \<Rightarrow> bool" for tests where
  reachable_init: "reachable tests initialSession"
| reachable_step: "reachable tests st \<Longrightarrow> step tests st act = Some st' \<Longrightarrow> reachable tests st'"

text \<open>A run of actions from a session; \<open>None\<close> as soon as one of them cannot be done.\<close>

fun run :: "(TestKey \<Rightarrow> Test) \<Rightarrow> Session \<Rightarrow> Action list \<Rightarrow> Session option" where
  "run tests st [] = Some st"
| "run tests st (act # acts) =
     (case step tests st act of None \<Rightarrow> None | Some st' \<Rightarrow> run tests st' acts)"

section \<open>The catalog entry \<^verbatim>\<open>day2\<close>\<close>

text \<open>The entry \<^verbatim>\<open>day2\<close> of \<^verbatim>\<open>TESTS\<close>, used below to run the program on concrete data.
  The en dash U+2013 and the quotation marks U+201C and U+201D of its texts are their
  UTF-8 bytes.\<close>

definition enDash :: string where
  "enDash = [CHR 0xE2, CHR 0x80, CHR 0x93]"

definition leftQuote :: string where
  "leftQuote = [CHR 0xE2, CHR 0x80, CHR 0x9C]"

definition rightQuote :: string where
  "rightQuote = [CHR 0xE2, CHR 0x80, CHR 0x9D]"

definition d2_1 :: Item where
  "d2_1 = MCQItem \<lparr>itemId = ''d2_1'', prompt = ''Tom ____ to a secondary school.'', guidance = None\<rparr>
     [\<lparr>optId = OptA, label = ''go''\<rparr>, \<lparr>optId = OptB, label = ''goes''\<rparr>,
      \<lparr>optId = OptC, label = ''went''\<rparr>] OptB"

definition d2_2 :: Item where
  "d2_2 = MCQItem \<lparr>itemId = ''d2_2'', prompt = ''He ____ grammar difficult.'', guidance = None\<rparr>
     [\<lparr>optId = OptA, label = ''finds''\<rparr>, \<lparr>optId = OptB, label = ''found''\<rparr>,
      \<lparr>optId = OptC, label = ''will find''\<rparr>] OptA"

definition d2_3 :: Item where
  "d2_3 = MCQItem \<lparr>itemId = ''d2_3'', prompt = ''Yesterday, Tom ____ English texts.'', guidance = None\<rparr>
     [\<lparr>optId = OptA, label = ''reads''\<rparr>, \<lparr>optId = OptB, label = ''read''\<rparr>,
      \<lparr>optId = OptC, label = ''will read''\<rparr>] OptB"

definition d2_s1 :: Item where
  "d2_s1 = TextAutoItem
     \<lparr>itemId = ''d2_s1'',
      prompt = ''Write this in the past tense: '' @ leftQuote @ ''Tom goes to school.'' @ rightQuote,
      guidance = Some ''Type the full sentence.''\<rparr>
     [''Tom went to school.'']"

definition d2_s2 :: Item where
  "d2_s2 = ShortItem
     \<lparr>itemId = ''d2_s2'',
      prompt = ''Write one sentence in the present tense about yourself.'',
      guidance = Some ''Example: I play football. / I like English.''\<rparr>
     None"

definition d2_s3 :: Item where
  "d2_s3 = ShortItem
     \<lparr>itemId = ''d2_s3'',
      prompt = ''Write one sentence in the future tense about tomorrow.'',
      guidance = Some ''Example: I will study English tomorrow.''\<rparr>
     (Some [''will''])"

definition d2_w1 :: Item where
  "d2_w1 = WritingItem
     \<lparr>itemId = ''d2_w1'',
      prompt = ''Write 3'' @ enDash @ ''4 sentences: How do you practice English outside school?'',
      guidance = Some ''Use full sentences.''\<rparr>"

definition day2 :: Test where
  "day2 =
     \<lparr>title = ''Practice Test '' @ enDash @ '' Grammar & Sentences'',
      readingTitle = ''School Life'',
      readingText = ''Tom goes to a secondary school in a small town. He likes English lessons, but he finds grammar difficult. Every day, he practices by writing short sentences and reading English texts.'',
      sections =
        [\<lparr>sectionId = ''grammar'', name = ''Task 1: Grammar (Choose the correct answer)'',
          items = [d2_1, d2_2, d2_3]\<rparr>,
         \<lparr>sectionId = ''sentences'', name = ''Task 2: Build sentences'',
          items = [d2_s1, d2_s2, d2_s3]\<rparr>,
         \<lparr>sectionId = ''writing'', name = ''Task 3: Short Writing'',
          items = [d2_w1]\<rparr>]\<rparr>"

text \<open>Answers to every item of \<^verbatim>\<open>day2\<close>, entered through \<^verbatim>\<open>setAnswer\<close>; the first six
  leave the writing item open.\<close>

definition sixAnswers :: Answers where
  "sixAnswers =
     [''d2_1'' \<mapsto> ''b'', ''d2_2'' \<mapsto> ''c'', ''d2_3'' \<mapsto> ''b'',
      ''d2_s1'' \<mapsto> ''tom WENT to school!'', ''d2_s2'' \<mapsto> ''I like English.'',
      ''d2_s3'' \<mapsto> ''I study tomorrow.'']"

definition sevenAnswers :: Answers where
  "sevenAnswers = sixAnswers(''d2_w1'' \<mapsto> ''I read books. I watch films.'')"

section \<open>Sessions used to run the program\<close>

text \<open>The session in the test view of \<^verbatim>\<open>day2\<close>, not finished, with the given answers.\<close>

definition inTest :: "Answers \<Rightarrow> Session" where
  "inTest ans = \<lparr> selectedTestKey = Day2, tab = TestTab, answers = ans,
       selfScoreWriting = None, finished = False \<rparr>"

text \<open>From the initial session: select \<^verbatim>\<open>day2\<close>, start the test, pick option b of the first
  item; and the session this leads to.\<close>

definition startDay2 :: "Action list" where
  "startDay2 = [SelectTest Day2, ClickStartTheTest, PickOption ''d2_1'' OptB]"

definition midTest :: Session where
  "midTest = \<lparr> selectedTestKey = Day2, tab = TestTab, answers = [''d2_1'' \<mapsto> ''b''],
       selfScoreWriting = None, finished = False \<rparr>"

text \<open>A finished session on \<^verbatim>\<open>day2\<close>, in the results view.\<close>

definition doneDay2 :: Session where
  "doneDay2 = \<lparr> selectedTestKey = Day2, tab = ResultsTab, answers = sevenAnswers,
       selfScoreWriting = Some 1, finished = True \<rparr>"

text \<open>Two writing items that are not in the catalog, and \<^verbatim>\<open>day2\<close> with a section of them
  added: a test with three writing items.\<close>

definition twoWritings :: "Item list" where
  "twoWritings =
     [WritingItem \<lparr>itemId = ''w2'', prompt = ''Describe your school.'', guidance = None\<rparr>,
      WritingItem \<lparr>itemId = ''w3'', prompt = ''Describe your town.'', guidance = None\<rparr>]"

definition day2Extended :: Test where
  "day2Extended =
     day2\<lparr>sections := sections day2 @
        [\<lparr>sectionId = ''more'', name = ''Task 4: More Writing'', items = twoWritings\<rparr>]\<rparr>"




section \<open>Notions used to state the properties\<close>

text \<open>A test without its writing items.\<close>

definition withoutWriting :: "Test \<Rightarrow> Test" where
  "withoutWriting TEST =
     TEST\<lparr>sections := map (\<lambda>s. s\<lparr>items := filter (\<lambda>it. itemType it \<noteq> Writing) (items s)\<rparr>)
                          (sections TEST)\<rparr>"







section \<open>Properties of the string helpers\<close>































lemma equalsAny_iff:
  "equalsAny tx (Some candidates) \<longleftrightarrow>
     (\<exists>c \<in> set candidates. normalizeStr (Some tx) = normalizeStr (Some c))"
  by (auto simp: equalsAny_def orNil_def)

lemma equalsAny_set:
  "set cs = set cs' \<Longrightarrow> equalsAny tx (Some cs) = equalsAny tx (Some cs')"
  by (simp add: equalsAny_iff)

text \<open>
  Claim C4. \<^verbatim>\<open>equalsAny(text, candidates)\<close> is true exactly when the normalized text is
  the normalized form of one of the candidates. So it is true for the one candidate
  \<open>s2\<close> whenever \<open>s\<close> and \<open>s2\<close> have the same normalized form, and it depends on the
  set of the candidates alone: neither their order nor a candidate listed twice changes
  it. With no candidate list the default is the empty list, and the result is false.
\<close>

theorem C4_equalsAny:
  "(equalsAny tx (Some candidates) \<longleftrightarrow>
      (\<exists>c \<in> set candidates. normalizeStr (Some tx) = normalizeStr (Some c)))
   \<and> (normalizeStr (Some s) = normalizeStr (Some s2) \<longrightarrow> equalsAny s (Some [s2]))
   \<and> (set cs = set cs' \<longrightarrow> equalsAny t (Some cs) = equalsAny t (Some cs'))
   \<and> equalsAny t (Some (rev cs)) = equalsAny t (Some cs)
   \<and> equalsAny t (Some (remdups cs)) = equalsAny t (Some cs)
   \<and> equalsAny t (Some (c # c # cs)) = equalsAny t (Some (c # cs))
   \<and> \<not> equalsAny t None"
proof -
  have "\<not> equalsAny t None"
    by (simp add: equalsAny_def orNil_def)
  then show ?thesis
    using equalsAny_iff [of tx candidates] equalsAny_set [of cs cs' t]
    by (simp add: equalsAny_iff)
qed

theorem C4_equalsAny_witness:
  "equalsAny ''tom WENT to school!'' (Some [''Tom goes.'', ''Tom went to school.''])
   \<and> equalsAny ''tom WENT to school!'' (Some [''Tom went to school.''])
   \<and> equalsAny ''tom WENT to school!'' (Some [''Tom went to school.'', ''Tom goes.'', ''Tom goes.''])
   \<and> \<not> equalsAny ''Tom goes to school.'' (Some [''Tom went to school.''])"
proof -
  have n1: "normalizeStr (Some ''tom WENT to school!'') = ''tom went to school''"
    by code_simp
  have n2: "normalizeStr (Some ''Tom went to school.'') = ''tom went to school''"
    by code_simp
  have n3: "normalizeStr (Some ''Tom goes to school.'') = ''tom goes to school''"
    by code_simp
  have s: "set [''Tom goes.'', ''Tom went to school.''] =
      set [''Tom went to school.'', ''Tom goes.'', ''Tom goes.'']"
    by auto
  have a: "equalsAny ''tom WENT to school!'' (Some [''Tom went to school.''])"
    using C4_equalsAny [of _ _ "''tom WENT to school!''" "''Tom went to school.''"] n1 n2
    by simp
  have b: "equalsAny ''tom WENT to school!'' (Some [''Tom goes.'', ''Tom went to school.''])"
    using C4_equalsAny [of "''tom WENT to school!''" "[''Tom goes.'', ''Tom went to school.'']"]
      n1 n2 by simp
  have c: "equalsAny ''tom WENT to school!''
      (Some [''Tom went to school.'', ''Tom goes.'', ''Tom goes.''])"
    using C4_equalsAny [of _ _ _ _ "[''Tom goes.'', ''Tom went to school.'']"
        "[''Tom went to school.'', ''Tom goes.'', ''Tom goes.'']" "''tom WENT to school!''"] s b
    by blast
  have d: "\<not> equalsAny ''Tom goes to school.'' (Some [''Tom went to school.''])"
    using C4_equalsAny [of "''Tom goes to school.''" "[''Tom went to school.'']"] n2 n3
    by simp
  from a b c d show ?thesis by simp
qed

section \<open>Properties of the scoring\<close>

lemma fold_autoScoreStep:
  "fold (autoScoreStep ans) xs n =
     n + length (filter (\<lambda>it. itemType (fst it) = Mcq \<and>
                            orEmpty (ans (itemId (base (fst it)))) = optionCode (answer (fst it))) xs)
       + length (filter (\<lambda>it. itemType (fst it) = TextT \<and>
                            equalsAny (orEmpty (ans (itemId (base (fst it)))))
                              (Some (acceptedAnswers (fst it)))) xs)"
proof (induction xs arbitrary: n)
  case Nil
  show ?case by simp
next
  case (Cons x xs)
  show ?case
    by (simp add: Cons.IH) (simp add: autoScoreStep_def Let_def)
qed

lemma filter_autoScored:
  "(\<And>it. P it \<Longrightarrow> itemType (fst it) = Mcq \<or> itemType (fst it) = TextT) \<Longrightarrow>
   filter P (autoScoredItems TEST) = filter P (allItems TEST)"
  unfolding autoScoredItems_def filter_filter
  by (rule filter_cong) auto

text \<open>
  Claim C2. For every test and answer map, the auto-score counted by the loop is the
  number of mcq items whose stored answer is the code in the item's \<^verbatim>\<open>answer\<close> field plus
  the number of text items whose stored answer is \<^verbatim>\<open>equalsAny\<close> to the item's accepted
  answers, counted over all items of the test in both cases: short and writing items add
  nothing. A missing answer is read as the empty string.
\<close>

theorem C2_autoScore:
  "autoScore TEST ans =
     length (filter (\<lambda>it. itemType (fst it) = Mcq \<and>
                         orEmpty (ans (itemId (base (fst it)))) = optionCode (answer (fst it)))
                    (allItems TEST))
     + length (filter (\<lambda>it. itemType (fst it) = TextT \<and>
                           equalsAny (orEmpty (ans (itemId (base (fst it)))))
                             (Some (acceptedAnswers (fst it))))
                      (allItems TEST))"
proof -
  have m: "filter (\<lambda>it. itemType (fst it) = Mcq \<and>
                       orEmpty (ans (itemId (base (fst it)))) = optionCode (answer (fst it)))
             (autoScoredItems TEST) =
           filter (\<lambda>it. itemType (fst it) = Mcq \<and>
                       orEmpty (ans (itemId (base (fst it)))) = optionCode (answer (fst it)))
             (allItems TEST)"
    by (rule filter_autoScored) simp
  have t: "filter (\<lambda>it. itemType (fst it) = TextT \<and>
                       equalsAny (orEmpty (ans (itemId (base (fst it)))))
                         (Some (acceptedAnswers (fst it))))
             (autoScoredItems TEST) =
           filter (\<lambda>it. itemType (fst it) = TextT \<and>
                       equalsAny (orEmpty (ans (itemId (base (fst it)))))
                         (Some (acceptedAnswers (fst it))))
             (allItems TEST)"
    by (rule filter_autoScored) simp
  show ?thesis
    unfolding autoScore_def fold_autoScoreStep m t by simp
qed

lemma autoScore_day2: "autoScore day2 sixAnswers = 3"
  by code_simp

theorem C2_autoScore_witness:
  "autoScore day2 sixAnswers = 3
   \<and> length (filter (\<lambda>it. itemType (fst it) = Mcq \<and>
                         orEmpty (sixAnswers (itemId (base (fst it)))) = optionCode (answer (fst it)))
                    (allItems day2)) = 2
   \<and> length (filter (\<lambda>it. itemType (fst it) = TextT \<and>
                           equalsAny (orEmpty (sixAnswers (itemId (base (fst it)))))
                             (Some (acceptedAnswers (fst it))))
                      (allItems day2)) = 1"
proof -
  have m: "length (filter (\<lambda>it. itemType (fst it) = Mcq \<and>
                         orEmpty (sixAnswers (itemId (base (fst it)))) = optionCode (answer (fst it)))
                    (allItems day2)) = 2"
    by code_simp
  show ?thesis
    using C2_autoScore [of day2 sixAnswers] m autoScore_day2 by simp
qed









section \<open>Properties of the session\<close>

lemma results_needs_finished_step:
  "step tests st act = Some st' \<Longrightarrow> (tab st = ResultsTab \<longrightarrow> finished st) \<Longrightarrow>
   tab st' = ResultsTab \<longrightarrow> finished st'"
  by (cases act)
    (auto simp: onChangeTest_def resetAllToReading_def setAnswer_def finishTest_def
      split: if_splits)

lemma reachable_results_finished:
  "reachable tests st \<Longrightarrow> tab st = ResultsTab \<longrightarrow> finished st"
proof (induction rule: reachable.induct)
  case reachable_init
  show ?case by (simp add: initialSession_def)
next
  case (reachable_step st act st')
  then show ?case using results_needs_finished_step by blast
qed

lemma mid_test_steps:
  "step tests st act = Some st' \<Longrightarrow> tab st = TestTab \<Longrightarrow> \<not> finished st \<Longrightarrow>
   selectedTestKey st' = selectedTestKey st \<and> (tab st' = ReadTab \<longrightarrow> act = ClickReset)"
  by (cases act)
    (auto simp: onChangeTest_def resetAllToReading_def setAnswer_def finishTest_def
      split: if_splits)

text \<open>
  Claim C5. In a session in the test view that is not finished, the Reading button and
  the test selector are disabled: neither handler can run. Every action that can be done
  there keeps the selected test, and the only one that leads to the reading view is the
  reset button. Once the finish button has been pressed with success, the
  Reading button and the test selector work again. The Results button works exactly when
  the session is finished, and every session the user can bring about that shows the
  results view is finished.
\<close>

theorem C5_navigation_guard:
  "(tab st = TestTab \<and> \<not> finished st \<longrightarrow>
      step tests st ClickReading = None \<and> step tests st (SelectTest key) = None)
   \<and> (tab st = TestTab \<and> \<not> finished st \<and> step tests st act = Some st' \<longrightarrow>
        selectedTestKey st' = selectedTestKey st \<and> (tab st' = ReadTab \<longrightarrow> act = ClickReset))
   \<and> (step tests st ClickFinish = Some st2 \<longrightarrow>
        step tests st2 ClickReading = Some (st2\<lparr>tab := ReadTab\<rparr>) \<and>
        step tests st2 (SelectTest key) = Some (onChangeTest key st2))
   \<and> (step tests st ClickResults \<noteq> None \<longleftrightarrow> finished st)
   \<and> (reachable tests st \<longrightarrow> (tab st = ResultsTab \<longrightarrow> finished st))"
proof -
  have a: "tab st = TestTab \<and> \<not> finished st \<longrightarrow>
      step tests st ClickReading = None \<and> step tests st (SelectTest key) = None"
    by simp
  have b: "tab st = TestTab \<and> \<not> finished st \<and> step tests st act = Some st' \<longrightarrow>
        selectedTestKey st' = selectedTestKey st \<and> (tab st' = ReadTab \<longrightarrow> act = ClickReset)"
    using mid_test_steps [of tests st act st'] by blast
  have c: "step tests st ClickFinish = Some st2 \<longrightarrow>
        step tests st2 ClickReading = Some (st2\<lparr>tab := ReadTab\<rparr>) \<and>
        step tests st2 (SelectTest key) = Some (onChangeTest key st2)"
    by (auto simp: finishTest_def split: if_splits)
  have d: "step tests st ClickResults \<noteq> None \<longleftrightarrow> finished st"
    by simp
  from a b c d reachable_results_finished [of tests st] show ?thesis by blast
qed

lemma reachable_run:
  "reachable tests st \<Longrightarrow> run tests st acts = Some st' \<Longrightarrow> reachable tests st'"
proof (induction acts arbitrary: st)
  case Nil
  then show ?case by simp
next
  case (Cons act acts)
  then show ?case
    by (auto split: option.splits intro: reachable_step)
qed

lemma hasRadio_d2_1: "hasRadio day2 ''d2_1'' OptB"
  by code_simp

lemma run_startDay2: "run (\<lambda>k. day2) initialSession startDay2 = Some midTest"
  by (simp add: startDay2_def initialSession_def midTest_def onChangeTest_def setAnswer_def
      hasRadio_d2_1)

lemma reachable_midTest: "reachable (\<lambda>k. day2) midTest"
  using reachable_run [OF reachable_init run_startDay2] .

theorem C5_navigation_guard_witness:
  "reachable (\<lambda>k. day2) midTest \<and> tab midTest = TestTab \<and> \<not> finished midTest
   \<and> step (\<lambda>k. day2) midTest ClickReading = None
   \<and> step (\<lambda>k. day2) midTest (SelectTest Original) = None
   \<and> step (\<lambda>k. day2) midTest ClickResults = None
   \<and> step (\<lambda>k. day2) (inTest sevenAnswers) ClickFinish = Some (finishTest (inTest sevenAnswers))
   \<and> step (\<lambda>k. day2) (finishTest (inTest sevenAnswers)) ClickReading
       = Some ((finishTest (inTest sevenAnswers))\<lparr>tab := ReadTab\<rparr>)
   \<and> step (\<lambda>k. day2) (finishTest (inTest sevenAnswers)) (SelectTest Original)
       = Some (onChangeTest Original (finishTest (inTest sevenAnswers)))"
proof -
  have m: "tab midTest = TestTab \<and> \<not> finished midTest" by (simp add: midTest_def)
  have c7: "isComplete day2 sevenAnswers" by code_simp
  have f: "step (\<lambda>k. day2) (inTest sevenAnswers) ClickFinish
      = Some (finishTest (inTest sevenAnswers))"
    using c7 by (simp add: inTest_def)
  note g1 = C5_navigation_guard [of midTest "\<lambda>k. day2" Original]
  note g2 = C5_navigation_guard [of "inTest sevenAnswers" "\<lambda>k. day2" Original _ _
      "finishTest (inTest sevenAnswers)"]
  have a: "step (\<lambda>k. day2) midTest ClickReading = None
      \<and> step (\<lambda>k. day2) midTest (SelectTest Original) = None"
    using g1 m by blast
  have b: "step (\<lambda>k. day2) midTest ClickResults = None"
    using g1 m by blast
  have c: "step (\<lambda>k. day2) (finishTest (inTest sevenAnswers)) ClickReading
       = Some ((finishTest (inTest sevenAnswers))\<lparr>tab := ReadTab\<rparr>)
     \<and> step (\<lambda>k. day2) (finishTest (inTest sevenAnswers)) (SelectTest Original)
       = Some (onChangeTest Original (finishTest (inTest sevenAnswers)))"
    using g2 f by blast
  from a b c m f reachable_midTest show ?thesis by blast
qed

text \<open>
  Claim C10. The reset button can be pressed in every session, whatever the view, and
  runs \<^verbatim>\<open>resetAllToReading\<close>, which empties the answer map and shows the reading view. So
  in the test view of a session that is not finished, where the Reading button is
  disabled, one press of the reset button discards every answer and leads to the reading
  view.
\<close>

theorem C10_reset_always_enabled:
  "step tests st ClickReset = Some (resetAllToReading st)
   \<and> answers (resetAllToReading st) = Map.empty
   \<and> tab (resetAllToReading st) = ReadTab
   \<and> (tab st = TestTab \<and> \<not> finished st \<longrightarrow>
        step tests st ClickReading = None \<and>
        (\<exists>st'. step tests st ClickReset = Some st' \<and> answers st' = Map.empty \<and> tab st' = ReadTab))"
  by (simp add: resetAllToReading_def)

theorem C10_reset_always_enabled_witness:
  "tab midTest = TestTab \<and> \<not> finished midTest \<and> answers midTest ''d2_1'' = Some ''b''
   \<and> step (\<lambda>k. day2) midTest ClickReading = None
   \<and> step (\<lambda>k. day2) midTest ClickReset = Some (resetAllToReading midTest)
   \<and> answers (resetAllToReading midTest) = Map.empty
   \<and> tab (resetAllToReading midTest) = ReadTab"
proof -
  have m: "tab midTest = TestTab \<and> \<not> finished midTest \<and> answers midTest ''d2_1'' = Some ''b''"
    by (simp add: midTest_def)
  show ?thesis
    using C10_reset_always_enabled [of "\<lambda>k. day2" midTest] m by simp
qed

text \<open>
  Claim C8. \<^verbatim>\<open>onChangeTest(key)\<close> and \<^verbatim>\<open>resetAllToReading()\<close> both leave the session with an
  empty answer map, no writing self-score, not finished and in the reading view; the
  first selects the test \<open>key\<close>, the second keeps the selected test. After either,
  the answer map has no key, so none outside the items of the selected test. The test
  selector, where it can be used, runs the first; the reset button and the start over
  button run the second.
\<close>

theorem C8_reset_and_selectTest:
  "onChangeTest key st =
     \<lparr> selectedTestKey = key, tab = ReadTab, answers = Map.empty,
       selfScoreWriting = None, finished = False \<rparr>
   \<and> resetAllToReading st =
     \<lparr> selectedTestKey = selectedTestKey st, tab = ReadTab, answers = Map.empty,
       selfScoreWriting = None, finished = False \<rparr>
   \<and> dom (answers (onChangeTest key st)) = {}
   \<and> dom (answers (resetAllToReading st)) = {}
   \<and> dom (answers (onChangeTest key st))
        \<subseteq> set (map (\<lambda>it. itemId (base (fst it))) (allItems (tests key)))
   \<and> dom (answers (resetAllToReading st))
        \<subseteq> set (map (\<lambda>it. itemId (base (fst it))) (allItems (tests (selectedTestKey st))))
   \<and> (step tests st (SelectTest key) = Some st' \<longrightarrow> st' = onChangeTest key st)
   \<and> step tests st ClickReset = Some (resetAllToReading st)
   \<and> (step tests st ClickStartOver = Some st' \<longrightarrow> st' = resetAllToReading st)"
  by (auto simp: onChangeTest_def resetAllToReading_def split: if_splits)

theorem C8_reset_and_selectTest_witness:
  "step (\<lambda>k. day2) doneDay2 (SelectTest Original) =
     Some \<lparr> selectedTestKey = Original, tab = ReadTab, answers = Map.empty,
            selfScoreWriting = None, finished = False \<rparr>
   \<and> step (\<lambda>k. day2) doneDay2 ClickStartOver =
     Some \<lparr> selectedTestKey = Day2, tab = ReadTab, answers = Map.empty,
            selfScoreWriting = None, finished = False \<rparr>
   \<and> step (\<lambda>k. day2) doneDay2 ClickReset =
     Some \<lparr> selectedTestKey = Day2, tab = ReadTab, answers = Map.empty,
            selfScoreWriting = None, finished = False \<rparr>
   \<and> answers doneDay2 ''d2_w1'' = Some ''I read books. I watch films.''"
proof -
  have e: "step (\<lambda>k. day2) doneDay2 (SelectTest Original) \<noteq> None
      \<and> step (\<lambda>k. day2) doneDay2 ClickStartOver \<noteq> None
      \<and> selectedTestKey doneDay2 = Day2
      \<and> answers doneDay2 ''d2_w1'' = Some ''I read books. I watch films.''"
    by (simp add: doneDay2_def sevenAnswers_def)
  then obtain s1 s2 where
    s: "step (\<lambda>k. day2) doneDay2 (SelectTest Original) = Some s1"
       "step (\<lambda>k. day2) doneDay2 ClickStartOver = Some s2"
    by blast
  show ?thesis
    using C8_reset_and_selectTest [of Original doneDay2 "\<lambda>k. day2" s1]
      C8_reset_and_selectTest [of Original doneDay2 "\<lambda>k. day2" s2] s e
    by simp
qed

section \<open>Properties of the points, the hints and the export\<close>

lemma autoScoredItems_concat:
  "autoScoredItems TEST =
     concat (map (\<lambda>s. map (\<lambda>it. (it, name s))
                          (filter (\<lambda>it. itemType it = Mcq \<or> itemType it = TextT) (items s)))
                 (sections TEST))"
  by (simp add: autoScoredItems_def allItems_def filter_concat filter_map comp_def)

lemma autoScoredItems_withoutWriting:
  "autoScoredItems (withoutWriting TEST) = autoScoredItems TEST"
proof -
  have "filter (\<lambda>it. itemType it = Mcq \<or> itemType it = TextT)
          (filter (\<lambda>it. itemType it \<noteq> Writing) xs) =
        filter (\<lambda>it. itemType it = Mcq \<or> itemType it = TextT) xs" for xs :: "Item list"
    unfolding filter_filter by (rule filter_cong) auto
  then show ?thesis
    by (simp add: autoScoredItems_concat withoutWriting_def comp_def)
qed

lemma autoScoredItems_append_writing:
  "list_all (\<lambda>it. itemType it = Writing) ws \<Longrightarrow>
   autoScoredItems (TEST\<lparr>sections := sections TEST @ [\<lparr>sectionId = i, name = n, items = ws\<rparr>]\<rparr>)
     = autoScoredItems TEST"
proof -
  assume w: "list_all (\<lambda>it. itemType it = Writing) ws"
  have "filter (\<lambda>it. itemType it = Mcq \<or> itemType it = TextT) ws = []"
    using w by (induction ws) auto
  then show ?thesis
    by (simp add: autoScoredItems_concat)
qed

lemma length_filter_disj:
  "(\<And>x. \<not> (P x \<and> Q x)) \<Longrightarrow>
   length (filter (\<lambda>x. P x \<or> Q x) xs) = length (filter P xs) + length (filter Q xs)"
  by (induction xs) auto

text \<open>
  Claim C6. For every test, the total points are the number of its mcq items plus the
  number of its text items plus one: one point more than the auto-scored items, however
  many writing items the test has. Dropping every writing item, or adding a section of
  writing items, leaves the total points as they are. The final score is the auto-score
  plus the writing self-score when one is set, and the auto-score alone otherwise.
\<close>

theorem C6_points:
  "totalPoints TEST =
     length (filter (\<lambda>it. itemType (fst it) = Mcq) (allItems TEST))
     + length (filter (\<lambda>it. itemType (fst it) = TextT) (allItems TEST)) + 1
   \<and> totalPoints TEST = length (autoScoredItems TEST) + 1
   \<and> totalPoints (withoutWriting TEST) = totalPoints TEST
   \<and> (list_all (\<lambda>it. itemType it = Writing) ws \<longrightarrow>
        totalPoints (TEST\<lparr>sections := sections TEST @ [\<lparr>sectionId = i, name = n, items = ws\<rparr>]\<rparr>)
          = totalPoints TEST)
   \<and> finalScore TEST ans (Some k) = autoScore TEST ans + k
   \<and> finalScore TEST ans None = autoScore TEST ans"
proof -
  have "length (autoScoredItems TEST) =
     length (filter (\<lambda>it. itemType (fst it) = Mcq) (allItems TEST))
     + length (filter (\<lambda>it. itemType (fst it) = TextT) (allItems TEST))"
    unfolding autoScoredItems_def by (rule length_filter_disj) simp
  then show ?thesis
    using autoScoredItems_append_writing [of ws TEST i n]
    by (simp add: totalPoints_def totalAutoPoints_def finalScore_def
        autoScoredItems_withoutWriting)
qed

lemma len_auto_day2: "length (autoScoredItems day2) = 4"
  by code_simp

theorem C6_points_witness:
  "list_all (\<lambda>it. itemType it = Writing) twoWritings
   \<and> totalPoints day2 = 5 \<and> totalPoints day2Extended = 5
   \<and> finalScore day2 sixAnswers (Some 1) = 4 \<and> finalScore day2 sixAnswers None = 3"
proof -
  have w: "list_all (\<lambda>it. itemType it = Writing) twoWritings"
    by (simp add: twoWritings_def)
  have a: "autoScore day2 sixAnswers = 3" by (rule autoScore_day2)
  note t = C6_points [of day2 twoWritings "''more''" "''Task 4: More Writing''" sixAnswers 1]
  have "totalPoints day2 = 5" using t len_auto_day2 by simp
  moreover have "totalPoints day2Extended = totalPoints day2"
    using t w unfolding day2Extended_def by blast
  moreover have "finalScore day2 sixAnswers (Some 1) = 4 \<and> finalScore day2 sixAnswers None = 3"
    using t a by simp
  ultimately show ?thesis using w by simp
qed




















end
